theory Spec2Isabelle
  imports Complex_Main
begin

section \<open>QuotaWatch: balance adapters, check job, scheduler\<close>

text \<open>
  A shallow embedding of the polling subsystem of QuotaWatch
  (\<^verbatim>\<open>app/services/adapters\<close>, \<^verbatim>\<open>app/services/adapter_factory.py\<close>,
  \<^verbatim>\<open>app/worker.py\<close>, \<^verbatim>\<open>app/api/routers/keys.py\<close>).

  Conventions of the model.
  \<^item> A Python \<^verbatim>\<open>float\<close> is a \<^typ>\<open>real\<close>: rounding, infinities and NaN are outside the model.
  \<^item> A raised exception is a value of type \<open>error\<close>; a function that may raise returns
    \<open>error + 'a\<close> with \<open>Inl\<close> the exception. The constructors carry the Python class names;
    the message texts of the source are abbreviated.
  \<^item> Whatever lies outside the repository (the HTTP peer, the Fernet cipher, the database
    commit, the Redis queue, the clock, Python's parsing of a numeral string) is a field of
    the record \<open>env\<close>: it fixes what each external call answers in the run considered.
  \<^item> External calls are logged: the HTTP requests sent and the jobs submitted to the queue are
    part of what a function returns.
\<close>

subsection \<open>Values and errors\<close>

datatype json =
    JNull
  | JBool bool
  | JNum real
  | JStr string
  | JArr "json list"
  | JObj "(string \<times> json) list"

text \<open>A parsed JSON object (a Python dict) is an association list read with \<^const>\<open>map_of\<close>.\<close>

type_synonym pydict = "(string \<times> json) list"

text \<open>The subclasses of \<^verbatim>\<open>httpx.TransportError\<close> a request can end in.\<close>

datatype transport_error = TimeoutException | ConnectError | ReadError

datatype error =
    ValueError string
  | TypeError
  | AttributeError
  | HTTPStatusError int
  | TransportError transport_error
  | JSONDecodeError
  | InvalidToken
  | OperationalError
  | RedisError

type_synonym datetime = nat

record request =
  url :: string
  headers :: "(string \<times> string) list"
  timeout :: real

text \<open>
  What \<^verbatim>\<open>client.get\<close> ends in: the request fails in transport, or a response arrives with a
  status code and a body; the body is \<open>None\<close> when it is not JSON text
  (\<^verbatim>\<open>response.json()\<close> raises).
\<close>

datatype http_outcome =
    Transport_failure transport_error
  | Response int "json option"

datatype job =
    Check_single_key int
  | Send_notification int real real string string

record env =
  float_of_str :: "string \<Rightarrow> real option"
  http_get :: "request \<Rightarrow> http_outcome"
  encrypt :: "string \<Rightarrow> string"
  decrypt :: "string \<Rightarrow> error + string"
  commit_ok :: bool
  pool_ok :: bool
  enqueue_ok :: "job \<Rightarrow> bool"
  utcnow :: "nat \<Rightarrow> datetime"

subsection \<open>Python built-ins used by the adapters\<close>

text \<open>\<^verbatim>\<open>float(v)\<close> on a value read from JSON.\<close>

fun py_float :: "env \<Rightarrow> json \<Rightarrow> error + real" where
  "py_float e (JNum r) = Inr r"
| "py_float e (JBool b) = Inr (if b then 1 else 0)"
| "py_float e (JStr s) =
     (case float_of_str e s of
        None \<Rightarrow> Inl (ValueError ''could not convert string to float'')
      | Some r \<Rightarrow> Inr r)"
| "py_float e JNull = Inl TypeError"
| "py_float e (JArr xs) = Inl TypeError"
| "py_float e (JObj kvs) = Inl TypeError"

text \<open>\<^verbatim>\<open>data.get(k, d)\<close> on the value \<^verbatim>\<open>response.json()\<close> returned: only a dict has \<^verbatim>\<open>get\<close>.\<close>

fun py_get :: "json \<Rightarrow> string \<Rightarrow> json \<Rightarrow> error + json" where
  "py_get (JObj kvs) k d = Inr (case map_of kvs k of None \<Rightarrow> d | Some v \<Rightarrow> v)"
| "py_get v k d = Inl AttributeError"

text \<open>\<^verbatim>\<open>response.raise_for_status()\<close>: every status outside 200..299 raises.\<close>

definition raise_for_status :: "int \<Rightarrow> error + unit" where
  "raise_for_status status_code =
     (if 200 \<le> status_code \<and> status_code \<le> 299 then Inr () else Inl (HTTPStatusError status_code))"

text \<open>\<^verbatim>\<open>response.json()\<close>.\<close>

definition response_json :: "json option \<Rightarrow> error + json" where
  "response_json body = (case body of None \<Rightarrow> Inl JSONDecodeError | Some data \<Rightarrow> Inr data)"

subsection \<open>Adapters\<close>

record BalanceFetchResult =
  balance :: real
  is_estimate :: bool

definition bearer_headers :: "string \<Rightarrow> (string \<times> string) list" where
  "bearer_headers api_key =
     [(''Authorization'', ''Bearer '' @ api_key), (''Content-Type'', ''application/json'')]"

text \<open>
  \<^verbatim>\<open>OpenRouterAdapter.fetch_balance\<close>. The second component is the list of requests sent.
\<close>

definition openrouter_request :: "string \<Rightarrow> request" where
  "openrouter_request api_key =
     \<lparr>url = ''https://openrouter.ai/api/v1/credits'', headers = bearer_headers api_key, timeout = 30\<rparr>"

definition openrouter_fetch_balance ::
  "env \<Rightarrow> string \<Rightarrow> pydict \<Rightarrow> (error + BalanceFetchResult) \<times> request list" where
  "openrouter_fetch_balance e api_key md =
     (let req = openrouter_request api_key in
      (case http_get e req of
         Transport_failure t \<Rightarrow> Inl (TransportError t)
       | Response status_code body \<Rightarrow>
           (case raise_for_status status_code of
              Inl err \<Rightarrow> Inl err
            | Inr u \<Rightarrow>
                (case response_json body of
                   Inl err \<Rightarrow> Inl err
                 | Inr data \<Rightarrow>
                     (case py_get data ''credits'' (JNum 0) of
                        Inl err \<Rightarrow> Inl err
                      | Inr v \<Rightarrow>
                          (case py_float e v of
                             Inl err \<Rightarrow> Inl err
                           | Inr b \<Rightarrow> Inr \<lparr>balance = b, is_estimate = False\<rparr>)))),
       [req]))"

text \<open>
  \<^verbatim>\<open>OpenAIUsageAdapter.fetch_balance\<close>. \<open>openai_try\<close> is the body of the \<^verbatim>\<open>try\<close> block,
  \<open>openai_fetch_balance\<close> the method with its \<^verbatim>\<open>except httpx.HTTPStatusError\<close> clause.
\<close>

definition openai_request :: "string \<Rightarrow> request" where
  "openai_request api_key =
     \<lparr>url = ''https://api.openai.com/v1/usage'', headers = bearer_headers api_key, timeout = 30\<rparr>"

definition openai_try :: "env \<Rightarrow> string \<Rightarrow> real \<Rightarrow> error + BalanceFetchResult" where
  "openai_try e api_key total_grant =
     (case http_get e (openai_request api_key) of
        Transport_failure t \<Rightarrow> Inl (TransportError t)
      | Response status_code body \<Rightarrow>
          if status_code = 404 then Inr \<lparr>balance = total_grant, is_estimate = True\<rparr>
          else
            (case raise_for_status status_code of
               Inl err \<Rightarrow> Inl err
             | Inr u \<Rightarrow>
                 (case response_json body of
                    Inl err \<Rightarrow> Inl err
                  | Inr data \<Rightarrow>
                      (case py_get data ''total_usage'' (JNum 0) of
                         Inl err \<Rightarrow> Inl err
                       | Inr v \<Rightarrow>
                           (case py_float e v of
                              Inl err \<Rightarrow> Inl err
                            | Inr total_usage \<Rightarrow>
                                (let used_amount = total_usage / 100;
                                     remaining = total_grant - used_amount
                                 in Inr \<lparr>balance = max 0 remaining, is_estimate = True\<rparr>))))))"

fun is_HTTPStatusError :: "error \<Rightarrow> bool" where
  "is_HTTPStatusError (HTTPStatusError c) = True"
| "is_HTTPStatusError err = False"

definition openai_fetch_balance ::
  "env \<Rightarrow> string \<Rightarrow> pydict \<Rightarrow> (error + BalanceFetchResult) \<times> request list" where
  "openai_fetch_balance e api_key md =
     (case map_of md ''total_grant'' of
        None \<Rightarrow> (Inl (ValueError ''total_grant missing from metadata''), [])
      | Some JNull \<Rightarrow> (Inl (ValueError ''total_grant missing from metadata''), [])
      | Some g \<Rightarrow>
          (case py_float e g of
             Inl err \<Rightarrow> (Inl err, [])
           | Inr total_grant \<Rightarrow>
               ((case openai_try e api_key total_grant of
                   Inl err \<Rightarrow>
                     if is_HTTPStatusError err
                     then Inr \<lparr>balance = total_grant, is_estimate = True\<rparr>
                     else Inl err
                 | Inr res \<Rightarrow> Inr res),
                [openai_request api_key])))"

subsection \<open>Adapter factory\<close>

datatype adapter =
    OpenRouterAdapter string pydict
  | OpenAIUsageAdapter string pydict

text \<open>The registry \<^verbatim>\<open>AdapterFactory._adapters\<close>.\<close>

definition adapters_registry :: "(string \<times> (string \<Rightarrow> pydict \<Rightarrow> adapter)) list" where
  "adapters_registry = [(''openrouter'', OpenRouterAdapter), (''openai'', OpenAIUsageAdapter)]"

text \<open>\<^verbatim>\<open>metadata or {}\<close>.\<close>

definition or_empty :: "pydict option \<Rightarrow> pydict" where
  "or_empty md = (case md of None \<Rightarrow> [] | Some d \<Rightarrow> d)"

definition create_adapter :: "string \<Rightarrow> string \<Rightarrow> pydict option \<Rightarrow> error + adapter" where
  "create_adapter adapter_identifier api_key md =
     (case map_of adapters_registry adapter_identifier of
        None \<Rightarrow> Inl (ValueError ''unknown adapter identifier'')
      | Some adapter_class \<Rightarrow> Inr (adapter_class api_key (or_empty md)))"

fun fetch_balance :: "env \<Rightarrow> adapter \<Rightarrow> (error + BalanceFetchResult) \<times> request list" where
  "fetch_balance e (OpenRouterAdapter api_key md) = openrouter_fetch_balance e api_key md"
| "fetch_balance e (OpenAIUsageAdapter api_key md) = openai_fetch_balance e api_key md"

subsection \<open>Tables, session and queue\<close>

text \<open>
  The tables of \<^verbatim>\<open>app/models.py\<close> the worker reads or writes. The surrogate key of a
  history row and of a rule is assigned by the database and never read by the worker; it is
  not modelled. Field names that would clash are prefixed with their table.
\<close>

record PlatformProvider =
  platform_ident :: int
  platform_name :: string
  slug :: string
  adapter_identifier :: string

record ManagedApiKey =
  key_ident :: int
  name :: string
  api_key_encrypted :: string
  metadata :: pydict
  last_known_balance :: "real option"
  last_checked :: "datetime option"
  user_id :: int
  platform_id :: int
  created_at :: datetime
  updated_at :: datetime

record BalanceLog =
  log_timestamp :: datetime
  log_balance :: real
  log_key_id :: int

record NotificationRule =
  threshold_amount :: real
  notification_channel :: string
  channel_address :: string
  rule_key_id :: int

record db =
  api_keys :: "ManagedApiKey list"
  platforms :: "PlatformProvider list"
  balance_logs :: "BalanceLog list"
  notification_rules :: "NotificationRule list"

text \<open>
  A SQLAlchemy session over one database transaction: \<open>stored\<close> is what is committed,
  \<open>working\<close> what the session sees, its own uncommitted writes included. A commit either
  makes the whole working state the stored one or raises and stores nothing; a rollback
  forgets the uncommitted writes.
\<close>

record session =
  stored :: db
  working :: db

definition Session :: "db \<Rightarrow> session" where
  "Session d = \<lparr>stored = d, working = d\<rparr>"

definition commit :: "env \<Rightarrow> session \<Rightarrow> error + session" where
  "commit e s = (if commit_ok e then Inr (s\<lparr>stored := working s\<rparr>) else Inl OperationalError)"

definition rollback :: "session \<Rightarrow> session" where
  "rollback s = s\<lparr>working := stored s\<rparr>"

text \<open>\<^verbatim>\<open>session.exec(select(T).where(...)).first()\<close> on the three tables.\<close>

definition first_key :: "session \<Rightarrow> int \<Rightarrow> ManagedApiKey option" where
  "first_key s key_id = find (\<lambda>k. key_ident k = key_id) (api_keys (working s))"

definition first_platform :: "session \<Rightarrow> int \<Rightarrow> PlatformProvider option" where
  "first_platform s pid = find (\<lambda>p. platform_ident p = pid) (platforms (working s))"

definition first_rule :: "session \<Rightarrow> int \<Rightarrow> NotificationRule option" where
  "first_rule s key_id = find (\<lambda>r. rule_key_id r = key_id) (notification_rules (working s))"

text \<open>
  The two writes of the check job: the loaded credential row with its two fields set
  (an update of the row with that primary key), and one new history row.
\<close>

definition update_key :: "int \<Rightarrow> real \<Rightarrow> datetime \<Rightarrow> session \<Rightarrow> session" where
  "update_key key_id b t s =
     s\<lparr>working := (working s)\<lparr>api_keys :=
          map (\<lambda>k. if key_ident k = key_id
                    then k\<lparr>last_known_balance := Some b, last_checked := Some t\<rparr>
                    else k)
              (api_keys (working s))\<rparr>\<rparr>"

definition add_log :: "BalanceLog \<Rightarrow> session \<Rightarrow> session" where
  "add_log l s = s\<lparr>working := (working s)\<lparr>balance_logs := balance_logs (working s) @ [l]\<rparr>\<rparr>"

definition add_key :: "ManagedApiKey \<Rightarrow> session \<Rightarrow> session" where
  "add_key k s = s\<lparr>working := (working s)\<lparr>api_keys := api_keys (working s) @ [k]\<rparr>\<rparr>"

text \<open>
  \<^verbatim>\<open>enqueue_job\<close> of the pool \<^verbatim>\<open>create_pool\<close> returned: the queue takes the job, or the
  call raises.
\<close>

definition enqueue_job :: "env \<Rightarrow> job list \<Rightarrow> job \<Rightarrow> error + job list" where
  "enqueue_job e q j = (if enqueue_ok e j then Inr (q @ [j]) else Inl RedisError)"

text \<open>
  \<^verbatim>\<open>ctx.enqueue_job(...)\<close> inside a job. The arq worker calls a job function with its
  context as a \<^verbatim>\<open>dict\<close>; the pool is the entry \<^verbatim>\<open>ctx['redis']\<close>. The expression is an
  attribute lookup on that dict, which has no attribute of that name: it raises
  \<^verbatim>\<open>AttributeError\<close> before anything is called, and the queue is not reached.
\<close>

definition ctx_enqueue_job :: "job list \<Rightarrow> job \<Rightarrow> error + job list" where
  "ctx_enqueue_job q j = Inl AttributeError"

subsection \<open>The check job\<close>

text \<open>
  What a run of a job leaves behind: the exception it raised if any, the session as it ends,
  the queue, the HTTP requests sent and the jobs handed to the queue.
\<close>

record run =
  raised :: "error option"
  final :: session
  queue :: "job list"
  requests :: "request list"
  submitted :: "job list"

text \<open>Lines 61 to 72 of \<^verbatim>\<open>worker.py\<close>: decrypt, build the adapter, fetch.\<close>

definition fetch_step ::
  "env \<Rightarrow> ManagedApiKey \<Rightarrow> PlatformProvider \<Rightarrow> (error + BalanceFetchResult) \<times> request list" where
  "fetch_step e api_key_record platform =
     (case decrypt e (api_key_encrypted api_key_record) of
        Inl err \<Rightarrow> (Inl err, [])
      | Inr decrypted_key \<Rightarrow>
          (case create_adapter (adapter_identifier platform) decrypted_key
                  (Some (metadata api_key_record)) of
             Inl err \<Rightarrow> (Inl err, [])
           | Inr a \<Rightarrow> fetch_balance e a))"

text \<open>
  Lines 74 to 87: set the two fields, add the history row, commit once. On a failed commit
  the session is returned as it is at the raise, the writes still pending.
\<close>

definition stage_writes :: "env \<Rightarrow> int \<Rightarrow> BalanceFetchResult \<Rightarrow> session \<Rightarrow> session" where
  "stage_writes e key_id result s =
     add_log \<lparr>log_timestamp = utcnow e 1, log_balance = balance result, log_key_id = key_id\<rparr>
       (update_key key_id (balance result) (utcnow e 0) s)"

definition persist_step ::
  "env \<Rightarrow> int \<Rightarrow> BalanceFetchResult \<Rightarrow> session \<Rightarrow> (error option) \<times> session" where
  "persist_step e key_id result s =
     (let s' = stage_writes e key_id result s in
      case commit e s' of
        Inl err \<Rightarrow> (Some err, s')
      | Inr s'' \<Rightarrow> (None, s''))"

text \<open>
  Lines 89 to 103: look the rule up and enqueue the notification through the context. A job
  counts as submitted once the call has reached the queue.
\<close>

definition notification_job :: "int \<Rightarrow> BalanceFetchResult \<Rightarrow> NotificationRule \<Rightarrow> job" where
  "notification_job key_id result r =
     Send_notification key_id (balance result) (threshold_amount r)
       (notification_channel r) (channel_address r)"

definition notify_step ::
  "int \<Rightarrow> BalanceFetchResult \<Rightarrow> session \<Rightarrow> job list \<Rightarrow> (error option) \<times> job list \<times> job list" where
  "notify_step key_id result s q =
     (case first_rule s key_id of
        None \<Rightarrow> (None, q, [])
      | Some notification_rule \<Rightarrow>
          if balance result \<le> threshold_amount notification_rule
          then
            (let j = notification_job key_id result notification_rule in
             case ctx_enqueue_job q j of
               Inl err \<Rightarrow> (Some err, q, [])
             | Inr q' \<Rightarrow> (None, q', [j]))
          else (None, q, []))"

text \<open>
  \<^verbatim>\<open>check_single_key\<close>. The \<^verbatim>\<open>except Exception\<close> clause is written out at each of the three
  places the \<^verbatim>\<open>try\<close> block can raise: roll the session back and raise again.
\<close>

definition check_single_key :: "env \<Rightarrow> db \<Rightarrow> job list \<Rightarrow> int \<Rightarrow> run" where
  "check_single_key e d q key_id =
     (let s = Session d in
      case first_key s key_id of
        None \<Rightarrow> \<lparr>raised = None, final = s, queue = q, requests = [], submitted = []\<rparr>
      | Some api_key_record \<Rightarrow>
          (case first_platform s (platform_id api_key_record) of
             None \<Rightarrow> \<lparr>raised = None, final = s, queue = q, requests = [], submitted = []\<rparr>
           | Some platform \<Rightarrow>
               (case fetch_step e api_key_record platform of
                  (Inl err, reqs) \<Rightarrow>
                    \<lparr>raised = Some err, final = rollback s, queue = q,
                     requests = reqs, submitted = []\<rparr>
                | (Inr result, reqs) \<Rightarrow>
                    (case persist_step e key_id result s of
                       (Some err, s') \<Rightarrow>
                         \<lparr>raised = Some err, final = rollback s', queue = q,
                          requests = reqs, submitted = []\<rparr>
                     | (None, s') \<Rightarrow>
                         (case notify_step key_id result s' q of
                            (Some err, q', js) \<Rightarrow>
                              \<lparr>raised = Some err, final = rollback s', queue = q',
                               requests = reqs, submitted = js\<rparr>
                          | (None, q', js) \<Rightarrow>
                              \<lparr>raised = None, final = s', queue = q',
                               requests = reqs, submitted = js\<rparr>)))))"

subsection \<open>The scheduler\<close>

text \<open>The \<^verbatim>\<open>for\<close> loop of \<^verbatim>\<open>schedule_all_key_checks\<close>: the first enqueue that raises ends it.\<close>

fun enqueue_checks :: "env \<Rightarrow> job list \<Rightarrow> ManagedApiKey list \<Rightarrow> error option \<times> job list" where
  "enqueue_checks e q [] = (None, q)"
| "enqueue_checks e q (key # all_keys) =
     (case enqueue_job e q (Check_single_key (key_ident key)) of
        Inl err \<Rightarrow> (Some err, q)
      | Inr q' \<Rightarrow> enqueue_checks e q' all_keys)"

definition schedule_all_key_checks :: "env \<Rightarrow> db \<Rightarrow> job list \<Rightarrow> error option \<times> job list" where
  "schedule_all_key_checks e d q =
     (let all_keys = api_keys (working (Session d)) in
      if pool_ok e then enqueue_checks e q all_keys else (Some RedisError, q))"

subsection \<open>Registering a credential\<close>

record ApiKeyCreate =
  req_name :: string
  api_key :: string
  req_platform_id :: int
  req_metadata :: "pydict option"

datatype http_exception = HTTP_404_NOT_FOUND

text \<open>
  \<^verbatim>\<open>create_key\<close> of \<^verbatim>\<open>routers/keys.py\<close>, for the authenticated user \<open>uid\<close>; \<open>new_id\<close> is the
  primary key the database assigns. A failed commit is not caught by the handler; it is
  \<open>Inr\<close> of the error here, the 404 of the handler \<open>Inl\<close>.
\<close>

definition new_key_row :: "env \<Rightarrow> int \<Rightarrow> int \<Rightarrow> ApiKeyCreate \<Rightarrow> ManagedApiKey" where
  "new_key_row e new_id uid key_data =
     (let encrypted_key = encrypt e (api_key key_data) in
      \<lparr>key_ident = new_id, name = req_name key_data, api_key_encrypted = encrypted_key,
       metadata = or_empty (req_metadata key_data), last_known_balance = None,
       last_checked = None, user_id = uid, platform_id = req_platform_id key_data,
       created_at = utcnow e 0, updated_at = utcnow e 1\<rparr>)"

definition create_key ::
  "env \<Rightarrow> int \<Rightarrow> db \<Rightarrow> int \<Rightarrow> ApiKeyCreate \<Rightarrow> http_exception + (error option \<times> session)" where
  "create_key e new_id d uid key_data =
     (let s = Session d in
      case first_platform s (req_platform_id key_data) of
        None \<Rightarrow> Inl HTTP_404_NOT_FOUND
      | Some platform \<Rightarrow>
          (let s' = add_key (new_key_row e new_id uid key_data) s in
           case commit e s' of
             Inl err \<Rightarrow> Inr (Some err, s')
           | Inr s'' \<Rightarrow> Inr (None, s'')))"

subsection \<open>The state a completed check leaves\<close>

text \<open>
  The database \<open>d\<close> with both writes of a check of credential \<open>key_id\<close> that fetched \<open>b\<close>:
  the credential's balance and checked-timestamp set, and one history row appended.
\<close>

definition both_written :: "env \<Rightarrow> int \<Rightarrow> real \<Rightarrow> db \<Rightarrow> db" where
  "both_written e key_id b d =
     d\<lparr>api_keys :=
          map (\<lambda>k. if key_ident k = key_id
                    then k\<lparr>last_known_balance := Some b, last_checked := Some (utcnow e 0)\<rparr>
                    else k) (api_keys d),
       balance_logs :=
          balance_logs d @ [\<lparr>log_timestamp = utcnow e 1, log_balance = b, log_key_id = key_id\<rparr>]\<rparr>"

subsection \<open>Concrete environments and tables\<close>

text \<open>
  An environment in which every external call succeeds, and variations of it, for the
  concrete runs below. Its cipher prefixes six characters and its decryption drops them.
\<close>

definition calm_env :: env where
  "calm_env =
     \<lparr>float_of_str = (\<lambda>s. None),
      http_get = (\<lambda>r. Response 200 (Some (JObj []))),
      encrypt = (\<lambda>s. ''gAAAAA'' @ s),
      decrypt = (\<lambda>t. Inr (drop 6 t)),
      commit_ok = True,
      pool_ok = True,
      enqueue_ok = (\<lambda>j. True),
      utcnow = (\<lambda>n. 1000 + n)\<rparr>"

definition answering :: "http_outcome \<Rightarrow> env" where
  "answering out = calm_env\<lparr>http_get := (\<lambda>r. out)\<rparr>"

definition credits :: "real \<Rightarrow> http_outcome" where
  "credits b = Response 200 (Some (JObj [(''credits'', JNum b)]))"

definition demo_key :: ManagedApiKey where
  "demo_key =
     \<lparr>key_ident = 7, name = ''prod'', api_key_encrypted = ''gAAAAAsk-or-test'', metadata = [],
      last_known_balance = Some 90, last_checked = Some 10, user_id = 1, platform_id = 1,
      created_at = 5, updated_at = 5\<rparr>"

definition demo_platform :: PlatformProvider where
  "demo_platform =
     \<lparr>platform_ident = 1, platform_name = ''OpenRouter'', slug = ''openrouter'',
      adapter_identifier = ''openrouter''\<rparr>"

definition demo_rule :: NotificationRule where
  "demo_rule =
     \<lparr>threshold_amount = 50, notification_channel = ''email'',
      channel_address = ''ops@example.org'', rule_key_id = 7\<rparr>"

definition demo_db :: db where
  "demo_db =
     \<lparr>api_keys = [demo_key],
      platforms = [demo_platform],
      balance_logs = [\<lparr>log_timestamp = 10, log_balance = 90, log_key_id = 7\<rparr>],
      notification_rules = [demo_rule]\<rparr>"

definition undecryptable :: env where
  "undecryptable = calm_env\<lparr>decrypt := (\<lambda>t. Inl InvalidToken)\<rparr>"

definition failing_commit :: "http_outcome \<Rightarrow> env" where
  "failing_commit out = (answering out)\<lparr>commit_ok := False\<rparr>"

definition refusing_second :: env where
  "refusing_second = calm_env\<lparr>enqueue_ok := (\<lambda>j. j \<noteq> Check_single_key 2)\<rparr>"

definition three_keys_db :: db where
  "three_keys_db =
     demo_db\<lparr>api_keys := [demo_key\<lparr>key_ident := 1\<rparr>, demo_key\<lparr>key_ident := 2\<rparr>,
                          demo_key\<lparr>key_ident := 3\<rparr>]\<rparr>"

definition prefix_cipher :: "string \<Rightarrow> string" where
  "prefix_cipher s = ''gAAAAA'' @ s"

definition constant_cipher :: "string \<Rightarrow> string" where
  "constant_cipher s = ''gAAAAAsk-live''"

definition demo_request :: ApiKeyCreate where
  "demo_request =
     \<lparr>req_name = ''staging'', api_key = ''sk-live'', req_platform_id = 1, req_metadata = None\<rparr>"

text \<open>The columns of a credential row other than the balance and the checked-timestamp.\<close>

definition static_columns ::
  "ManagedApiKey \<Rightarrow> int \<times> string \<times> string \<times> pydict \<times> int \<times> int \<times> datetime \<times> datetime" where
  "static_columns k =
     (key_ident k, name k, api_key_encrypted k, metadata k, user_id k, platform_id k,
      created_at k, updated_at k)"

section \<open>Properties\<close>

subsection \<open>The estimate adapter\<close>

text \<open>
  Claim C6. With a grant of 100, a usage answer of 3000 minor units gives balance 70 and a
  not-found answer gives balance 100, both flagged as estimates; in general, a 2xx answer
  whose usage reads as \<open>usage\<close> minor units gives \<open>max 0 (grant - usage / 100)\<close>, flagged as
  an estimate. One request is sent in each case.
\<close>

theorem estimate_adapter_balance:
  "(http_get e (openai_request k) = Response 200 (Some (JObj [(''total_usage'', JNum 3000)])) \<longrightarrow>
      fetch_balance e (OpenAIUsageAdapter k [(''total_grant'', JNum 100)])
        = (Inr \<lparr>balance = 70, is_estimate = True\<rparr>, [openai_request k]))
   \<and> (\<forall>body. http_get e (openai_request k) = Response 404 body \<longrightarrow>
      fetch_balance e (OpenAIUsageAdapter k [(''total_grant'', JNum 100)])
        = (Inr \<lparr>balance = 100, is_estimate = True\<rparr>, [openai_request k]))
   \<and> (\<forall>md g grant status_code data v usage.
        map_of md ''total_grant'' = Some g \<and> py_float e g = Inr grant \<and>
        http_get e (openai_request k) = Response status_code (Some data) \<and>
        200 \<le> status_code \<and> status_code \<le> 299 \<and>
        py_get data ''total_usage'' (JNum 0) = Inr v \<and> py_float e v = Inr usage \<longrightarrow>
      fetch_balance e (OpenAIUsageAdapter k md)
        = (Inr \<lparr>balance = max 0 (grant - usage / 100), is_estimate = True\<rparr>, [openai_request k]))"
proof (intro conjI allI impI)
  assume "http_get e (openai_request k) = Response 200 (Some (JObj [(''total_usage'', JNum 3000)]))"
  then show "fetch_balance e (OpenAIUsageAdapter k [(''total_grant'', JNum 100)])
        = (Inr \<lparr>balance = 70, is_estimate = True\<rparr>, [openai_request k])"
    by (simp add: openai_fetch_balance_def openai_try_def raise_for_status_def response_json_def)
next
  fix body
  assume "http_get e (openai_request k) = Response 404 body"
  then show "fetch_balance e (OpenAIUsageAdapter k [(''total_grant'', JNum 100)])
        = (Inr \<lparr>balance = 100, is_estimate = True\<rparr>, [openai_request k])"
    by (simp add: openai_fetch_balance_def openai_try_def)
next
  fix md g grant status_code data v usage
  assume h: "map_of md ''total_grant'' = Some g \<and> py_float e g = Inr grant \<and>
        http_get e (openai_request k) = Response status_code (Some data) \<and>
        200 \<le> status_code \<and> status_code \<le> 299 \<and>
        py_get data ''total_usage'' (JNum 0) = Inr v \<and> py_float e v = Inr usage"
  then have "g \<noteq> JNull" by auto
  with h show "fetch_balance e (OpenAIUsageAdapter k md)
        = (Inr \<lparr>balance = max 0 (grant - usage / 100), is_estimate = True\<rparr>, [openai_request k])"
    by (cases g)
      (simp_all add: openai_fetch_balance_def openai_try_def raise_for_status_def response_json_def)
qed

theorem estimate_adapter_balance_witness:
  "fetch_balance (answering (Response 200 (Some (JObj [(''total_usage'', JNum 3000)]))))
      (OpenAIUsageAdapter ''sk-test'' [(''total_grant'', JNum 100)])
     = (Inr \<lparr>balance = 70, is_estimate = True\<rparr>, [openai_request ''sk-test''])
   \<and> fetch_balance (answering (Response 404 None))
      (OpenAIUsageAdapter ''sk-test'' [(''total_grant'', JNum 100)])
     = (Inr \<lparr>balance = 100, is_estimate = True\<rparr>, [openai_request ''sk-test''])
   \<and> fetch_balance (answering (Response 200 (Some (JObj [(''total_usage'', JNum 25000)]))))
      (OpenAIUsageAdapter ''sk-test'' [(''total_grant'', JBool True)])
     = (Inr \<lparr>balance = 0, is_estimate = True\<rparr>, [openai_request ''sk-test''])"
  using estimate_adapter_balance
          [of "answering (Response 200 (Some (JObj [(''total_usage'', JNum 3000)])))" "''sk-test''"]
        estimate_adapter_balance
          [of "answering (Response 404 None)" "''sk-test''"]
        estimate_adapter_balance
          [of "answering (Response 200 (Some (JObj [(''total_usage'', JNum 25000)])))" "''sk-test''",
           THEN conjunct2, THEN conjunct2, THEN spec, THEN spec, THEN spec, THEN spec,
           THEN spec, THEN spec, THEN spec,
           of "[(''total_grant'', JBool True)]" "JBool True" 1 200
              "JObj [(''total_usage'', JNum 25000)]" "JNum 25000" 25000]
  by (simp add: answering_def calm_env_def)

text \<open>
  Claim C7. When the metadata holds no total grant (the key is absent or null), or holds a
  value that \<^verbatim>\<open>float\<close> rejects, \<^verbatim>\<open>fetch_balance\<close> raises and no request has been sent;
  for the absent or null grant the exception is the \<^verbatim>\<open>ValueError\<close> of line 32.
\<close>

theorem estimate_adapter_missing_grant:
  assumes "map_of md ''total_grant'' = None
           \<or> (\<exists>g. map_of md ''total_grant'' = Some g \<and> isl (py_float e g))"
  shows "snd (fetch_balance e (OpenAIUsageAdapter k md)) = []
         \<and> isl (fst (fetch_balance e (OpenAIUsageAdapter k md)))
         \<and> (map_of md ''total_grant'' = None \<or> map_of md ''total_grant'' = Some JNull \<longrightarrow>
              fst (fetch_balance e (OpenAIUsageAdapter k md))
                = Inl (ValueError ''total_grant missing from metadata''))"
  using assms
  by (auto simp: openai_fetch_balance_def split: option.splits json.splits sum.splits)

theorem estimate_adapter_missing_grant_witness:
  "fetch_balance calm_env (OpenAIUsageAdapter ''sk-test'' [(''note'', JStr ''x'')])
     = (Inl (ValueError ''total_grant missing from metadata''), [])
   \<and> fetch_balance calm_env (OpenAIUsageAdapter ''sk-test'' [(''total_grant'', JStr ''lots'')])
     = (Inl (ValueError ''could not convert string to float''), [])"
  using estimate_adapter_missing_grant [of "[(''note'', JStr ''x'')]" calm_env "''sk-test''"]
        estimate_adapter_missing_grant [of "[(''total_grant'', JStr ''lots'')]" calm_env "''sk-test''"]
  by (simp add: calm_env_def openai_fetch_balance_def)

text \<open>
  Claim C4, on the code. With the grant present, a request that fails in transport (a
  timeout, a refused connection) makes \<^verbatim>\<open>fetch_balance\<close> raise the transport error: the
  \<^verbatim>\<open>except\<close> clause catches \<^verbatim>\<open>httpx.HTTPStatusError\<close> only, and the grant is not returned.
\<close>

theorem estimate_adapter_transport_failure_raises:
  assumes "map_of md ''total_grant'' = Some g" and "py_float e g = Inr grant"
    and "http_get e (openai_request k) = Transport_failure t"
  shows "fetch_balance e (OpenAIUsageAdapter k md) = (Inl (TransportError t), [openai_request k])"
proof -
  from assms(2) have "g \<noteq> JNull" by auto
  moreover from assms(3) have "openai_try e k grant = Inl (TransportError t)"
    by (simp add: openai_try_def)
  ultimately show ?thesis
    using assms(1,2) by (cases g) (simp_all add: openai_fetch_balance_def)
qed

theorem estimate_adapter_transport_failure_raises_witness:
  "fetch_balance (answering (Transport_failure TimeoutException))
      (OpenAIUsageAdapter ''sk-test'' [(''total_grant'', JNum 100)])
     = (Inl (TransportError TimeoutException), [openai_request ''sk-test''])"
  using estimate_adapter_transport_failure_raises
          [of "[(''total_grant'', JNum 100)]" "JNum 100"
              "answering (Transport_failure TimeoutException)" 100 "''sk-test''" TimeoutException]
  by (simp add: answering_def calm_env_def)

subsection \<open>The exact adapter\<close>

lemma openrouter_response:
  "http_get e (openrouter_request k) = Response status_code body \<Longrightarrow>
   fst (fetch_balance e (OpenRouterAdapter k md)) =
     (case raise_for_status status_code of
        Inl err \<Rightarrow> Inl err
      | Inr u \<Rightarrow>
          (case response_json body of
             Inl err \<Rightarrow> Inl err
           | Inr data \<Rightarrow>
               (case py_get data ''credits'' (JNum 0) of
                  Inl err \<Rightarrow> Inl err
                | Inr v \<Rightarrow>
                    (case py_float e v of
                       Inl err \<Rightarrow> Inl err
                     | Inr b \<Rightarrow> Inr \<lparr>balance = b, is_estimate = False\<rparr>))))"
  by (simp add: openrouter_fetch_balance_def Let_def)

lemma py_get_not_object: "(\<forall>kvs. data \<noteq> JObj kvs) \<Longrightarrow> py_get data k d = Inl AttributeError"
  by (cases data) simp_all

text \<open>
  Claim C5 as stated fails: a 2xx answer whose JSON object has no \<^verbatim>\<open>credits\<close> field is
  not an error; the default of \<^verbatim>\<open>data.get("credits", 0)\<close> is returned as an exact balance 0.
\<close>

theorem exact_adapter_missing_field_counterexample:
  "fetch_balance (answering (Response 200 (Some (JObj [(''label'', JStr ''free tier'')]))))
      (OpenRouterAdapter ''sk-or-test'' [])
     = (Inr \<lparr>balance = 0, is_estimate = False\<rparr>, [openrouter_request ''sk-or-test''])"
  by (simp add: answering_def calm_env_def openrouter_fetch_balance_def raise_for_status_def
        response_json_def)

text \<open>
  Claim C5 as amended. For every answer to the request: a status outside 200..299 raises
  \<^verbatim>\<open>HTTPStatusError\<close>; on a 2xx status, a body that is not JSON raises the decoding error, a
  JSON value that is not an object raises \<^verbatim>\<open>AttributeError\<close>, a \<^verbatim>\<open>credits\<close> value that
  \<^verbatim>\<open>float\<close> rejects raises that error, a \<^verbatim>\<open>credits\<close> value that \<^verbatim>\<open>float\<close> reads as \<open>b\<close> gives the
  exact balance \<open>b\<close>, and an object without \<^verbatim>\<open>credits\<close> gives the exact balance 0.
\<close>

theorem exact_adapter_errors:
  assumes "http_get e (openrouter_request k) = Response status_code body"
  shows "(\<not> (200 \<le> status_code \<and> status_code \<le> 299) \<longrightarrow>
            fst (fetch_balance e (OpenRouterAdapter k md)) = Inl (HTTPStatusError status_code))
       \<and> (200 \<le> status_code \<and> status_code \<le> 299 \<longrightarrow>
            (body = None \<longrightarrow>
               fst (fetch_balance e (OpenRouterAdapter k md)) = Inl JSONDecodeError)
          \<and> (\<forall>data. body = Some data \<and> (\<forall>kvs. data \<noteq> JObj kvs) \<longrightarrow>
               fst (fetch_balance e (OpenRouterAdapter k md)) = Inl AttributeError)
          \<and> (\<forall>kvs v err. body = Some (JObj kvs) \<and> map_of kvs ''credits'' = Some v
                  \<and> py_float e v = Inl err \<longrightarrow>
               fst (fetch_balance e (OpenRouterAdapter k md)) = Inl err)
          \<and> (\<forall>kvs v b. body = Some (JObj kvs) \<and> map_of kvs ''credits'' = Some v
                  \<and> py_float e v = Inr b \<longrightarrow>
               fst (fetch_balance e (OpenRouterAdapter k md))
                 = Inr \<lparr>balance = b, is_estimate = False\<rparr>)
          \<and> (\<forall>kvs. body = Some (JObj kvs) \<and> map_of kvs ''credits'' = None \<longrightarrow>
               fst (fetch_balance e (OpenRouterAdapter k md))
                 = Inr \<lparr>balance = 0, is_estimate = False\<rparr>))"
  unfolding openrouter_response [OF assms]
  by (auto simp: raise_for_status_def response_json_def py_get_not_object)

theorem exact_adapter_errors_witness:
  "fst (fetch_balance (answering (Response 503 (Some (JObj [(''credits'', JNum 42.5)]))))
          (OpenRouterAdapter ''sk-or-test'' [])) = Inl (HTTPStatusError 503)
   \<and> fst (fetch_balance (answering (Response 200 None))
          (OpenRouterAdapter ''sk-or-test'' [])) = Inl JSONDecodeError
   \<and> fst (fetch_balance (answering (Response 200 (Some (JArr []))))
          (OpenRouterAdapter ''sk-or-test'' [])) = Inl AttributeError
   \<and> fst (fetch_balance (answering (Response 200 (Some (JObj [(''credits'', JNull)]))))
          (OpenRouterAdapter ''sk-or-test'' [])) = Inl TypeError
   \<and> fst (fetch_balance (answering (Response 200 (Some (JObj [(''credits'', JNum 42.5)]))))
          (OpenRouterAdapter ''sk-or-test'' [])) = Inr \<lparr>balance = 42.5, is_estimate = False\<rparr>
   \<and> fst (fetch_balance (answering (Response 200 (Some (JObj []))))
          (OpenRouterAdapter ''sk-or-test'' [])) = Inr \<lparr>balance = 0, is_estimate = False\<rparr>"
  using exact_adapter_errors
          [of "answering (Response 503 (Some (JObj [(''credits'', JNum 42.5)])))" "''sk-or-test''"
              503 "Some (JObj [(''credits'', JNum 42.5)])" "[]"]
        exact_adapter_errors
          [of "answering (Response 200 None)" "''sk-or-test''" 200 None "[]"]
        exact_adapter_errors
          [of "answering (Response 200 (Some (JArr [])))" "''sk-or-test''" 200 "Some (JArr [])" "[]"]
        exact_adapter_errors
          [of "answering (Response 200 (Some (JObj [(''credits'', JNull)])))" "''sk-or-test''"
              200 "Some (JObj [(''credits'', JNull)])" "[]"]
        exact_adapter_errors
          [of "answering (Response 200 (Some (JObj [(''credits'', JNum 42.5)])))" "''sk-or-test''"
              200 "Some (JObj [(''credits'', JNum 42.5)])" "[]"]
        exact_adapter_errors
          [of "answering (Response 200 (Some (JObj [])))" "''sk-or-test''" 200 "Some (JObj [])" "[]"]
  by (simp add: answering_def calm_env_def)

subsection \<open>The check job\<close>

lemma persist_step_ok:
  "commit_ok e \<Longrightarrow>
   persist_step e key_id result (Session d) =
     (None, Session (both_written e key_id (balance result) d))"
  by (simp add: persist_step_def commit_def Let_def Session_def stage_writes_def add_log_def
        update_key_def both_written_def)

lemma persist_step_fails:
  "\<not> commit_ok e \<Longrightarrow>
   persist_step e key_id result (Session d) =
     (Some OperationalError, stage_writes e key_id result (Session d))"
  by (simp add: persist_step_def commit_def Let_def)

lemma rollback_staged: "rollback (stage_writes e key_id result (Session d)) = Session d"
  by (simp add: rollback_def Session_def stage_writes_def add_log_def update_key_def)

lemma rollback_Session: "rollback (Session d) = Session d"
  by (simp add: rollback_def Session_def)

lemma first_rule_both_written:
  "first_rule (Session (both_written e key_id b d)) kid = first_rule (Session d) kid"
  by (simp add: first_rule_def Session_def both_written_def)

text \<open>The run of the job once the credential and its platform are found.\<close>

lemma check_single_key_found:
  assumes "first_key (Session d) key_id = Some k"
    and "first_platform (Session d) (platform_id k) = Some p"
  shows "check_single_key e d q key_id =
     (case fetch_step e k p of
        (Inl err, reqs) \<Rightarrow>
          \<lparr>raised = Some err, final = Session d, queue = q, requests = reqs, submitted = []\<rparr>
      | (Inr result, reqs) \<Rightarrow>
          if commit_ok e then
            (case notify_step key_id result
                    (Session (both_written e key_id (balance result) d)) q of
               (err, q', js) \<Rightarrow>
                 \<lparr>raised = err, final = Session (both_written e key_id (balance result) d),
                  queue = q', requests = reqs, submitted = js\<rparr>)
          else \<lparr>raised = Some OperationalError, final = Session d, queue = q,
                requests = reqs, submitted = []\<rparr>)"
  using assms
  by (auto simp: check_single_key_def Let_def persist_step_ok persist_step_fails rollback_staged
        rollback_Session split: prod.splits sum.splits option.splits)

lemma check_single_key_not_found:
  assumes "first_key (Session d) key_id = None
           \<or> (\<exists>k. first_key (Session d) key_id = Some k
                  \<and> first_platform (Session d) (platform_id k) = None)"
  shows "check_single_key e d q key_id =
           \<lparr>raised = None, final = Session d, queue = q, requests = [], submitted = []\<rparr>"
  using assms by (auto simp: check_single_key_def Let_def)

lemma notify_step_cases:
  "notify_step key_id result (Session (both_written e key_id b d)) q =
     (case first_rule (Session d) key_id of
        None \<Rightarrow> (None, q, [])
      | Some r \<Rightarrow>
          if balance result \<le> threshold_amount r
          then (Some AttributeError, q, [])
          else (None, q, []))"
  by (simp add: notify_step_def first_rule_both_written ctx_enqueue_job_def Let_def
        split: option.splits)

text \<open>Facts about the concrete tables.\<close>

lemma demo_first_key: "first_key (Session demo_db) 7 = Some demo_key"
  by (simp add: first_key_def Session_def demo_db_def demo_key_def)

lemma demo_first_platform:
  "first_platform (Session demo_db) (platform_id demo_key) = Some demo_platform"
  by (simp add: first_platform_def Session_def demo_db_def demo_key_def demo_platform_def)

lemma demo_first_rule: "first_rule (Session demo_db) 7 = Some demo_rule"
  by (simp add: first_rule_def Session_def demo_db_def demo_rule_def)

lemma demo_fetch:
  "http_get e (openrouter_request ''sk-or-test'') = credits b \<Longrightarrow>
   decrypt e ''gAAAAAsk-or-test'' = Inr ''sk-or-test'' \<Longrightarrow>
   fetch_step e demo_key demo_platform
     = (Inr \<lparr>balance = b, is_estimate = False\<rparr>, [openrouter_request ''sk-or-test''])"
  by (simp add: fetch_step_def demo_key_def demo_platform_def create_adapter_def
        adapters_registry_def or_empty_def openrouter_fetch_balance_def credits_def
        raise_for_status_def response_json_def)

lemma answering_simps:
  "http_get (answering out) r = out"
  "decrypt (answering out) t = Inr (drop 6 t)"
  "commit_ok (answering out)"
  "pool_ok (answering out)"
  "enqueue_ok (answering out) j"
  "utcnow (answering out) n = 1000 + n"
  by (simp_all add: answering_def calm_env_def)

text \<open>
  Claim C1, on the code. In a run that finds the credential and its platform, fetches
  \<open>result\<close> and commits: when a rule exists and the fetched balance is at most its threshold,
  the lookup of \<^verbatim>\<open>enqueue_job\<close> on the context raises, the run ends in \<^verbatim>\<open>AttributeError\<close>, and
  no job has been submitted or enqueued, where the claim has exactly one notification. When
  the balance is above the threshold, or no rule exists, the run returns and nothing is
  enqueued, as the claim says.
\<close>

theorem check_job_notify_raises:
  assumes "first_key (Session d) key_id = Some k"
    and "first_platform (Session d) (platform_id k) = Some p"
    and "fetch_step e k p = (Inr result, reqs)"
    and "commit_ok e"
  shows "(\<forall>r. first_rule (Session d) key_id = Some r \<and> balance result \<le> threshold_amount r \<longrightarrow>
            raised (check_single_key e d q key_id) = Some AttributeError
          \<and> submitted (check_single_key e d q key_id) = []
          \<and> queue (check_single_key e d q key_id) = q)
       \<and> (\<forall>r. first_rule (Session d) key_id = Some r \<and> balance result > threshold_amount r \<longrightarrow>
            raised (check_single_key e d q key_id) = None
          \<and> submitted (check_single_key e d q key_id) = []
          \<and> queue (check_single_key e d q key_id) = q)
       \<and> (first_rule (Session d) key_id = None \<longrightarrow>
            raised (check_single_key e d q key_id) = None
          \<and> submitted (check_single_key e d q key_id) = []
          \<and> queue (check_single_key e d q key_id) = q)"
  by (simp add: check_single_key_found [OF assms(1,2)] assms(3,4) notify_step_cases
        split: option.splits)

theorem check_job_notify_raises_witness:
  "raised (check_single_key (answering (credits 42.5)) demo_db [] 7) = Some AttributeError
   \<and> submitted (check_single_key (answering (credits 42.5)) demo_db [] 7) = []
   \<and> queue (check_single_key (answering (credits 42.5)) demo_db [] 7) = []
   \<and> raised (check_single_key (answering (credits 80)) demo_db [] 7) = None
   \<and> queue (check_single_key (answering (credits 80)) demo_db [] 7) = []"
  using check_job_notify_raises [OF demo_first_key demo_first_platform
          demo_fetch [of "answering (credits 42.5)" "42.5"], of "[]"]
        check_job_notify_raises [OF demo_first_key demo_first_platform
          demo_fetch [of "answering (credits 80)" "80"], of "[]"]
  by (simp add: answering_simps demo_first_rule) (simp add: demo_rule_def)

lemma both_written_fields:
  "platforms (both_written e key_id b d) = platforms d"
  "notification_rules (both_written e key_id b d) = notification_rules d"
  "balance_logs (both_written e key_id b d)
     = balance_logs d @ [\<lparr>log_timestamp = utcnow e 1, log_balance = b, log_key_id = key_id\<rparr>]"
  by (simp_all add: both_written_def)

lemma stored_Session: "stored (Session d) = d" "working (Session d) = d"
  by (simp_all add: Session_def)

lemma check_single_key_stored:
  "stored (final (check_single_key e d q key_id)) = d
   \<or> (\<exists>b. stored (final (check_single_key e d q key_id)) = both_written e key_id b d)"
proof (cases "first_key (Session d) key_id")
  case None
  then show ?thesis by (simp add: check_single_key_not_found stored_Session)
next
  case (Some k)
  show ?thesis
  proof (cases "first_platform (Session d) (platform_id k)")
    case None
    with Some show ?thesis by (simp add: check_single_key_not_found stored_Session)
  next
    case (Some p)
    with \<open>first_key (Session d) key_id = Some k\<close> show ?thesis
      by (auto simp: check_single_key_found stored_Session split: prod.splits sum.splits)
  qed
qed

lemma check_single_key_settled:
  "working (final (check_single_key e d q key_id))
     = stored (final (check_single_key e d q key_id))"
proof (cases "first_key (Session d) key_id")
  case None
  then show ?thesis by (simp add: check_single_key_not_found stored_Session)
next
  case (Some k)
  show ?thesis
  proof (cases "first_platform (Session d) (platform_id k)")
    case None
    with Some show ?thesis by (simp add: check_single_key_not_found stored_Session)
  next
    case (Some p)
    with \<open>first_key (Session d) key_id = Some k\<close> show ?thesis
      by (auto simp: check_single_key_found stored_Session split: prod.splits sum.splits)
  qed
qed

lemma demo_fetch_undecryptable:
  "fetch_step undecryptable demo_key demo_platform = (Inl InvalidToken, [])"
  by (simp add: fetch_step_def undecryptable_def calm_env_def)

lemma demo_fetch_failing_commit:
  "fetch_step (failing_commit (credits b)) demo_key demo_platform
     = (Inr \<lparr>balance = b, is_estimate = False\<rparr>, [openrouter_request ''sk-or-test''])"
  by (rule demo_fetch) (simp_all add: failing_commit_def answering_simps)

lemma demo_fetch_answering:
  "fetch_step (answering (credits b)) demo_key demo_platform
     = (Inr \<lparr>balance = b, is_estimate = False\<rparr>, [openrouter_request ''sk-or-test''])"
  by (rule demo_fetch) (simp_all add: answering_simps)

text \<open>
  Claim C2. Whatever happens in a run, the stored database is either the one the run began
  with or that one with both writes (balance and checked-timestamp on the credential, one
  history row), and no write is left pending. When decryption, the adapter or the fetch
  raises, and when the commit raises, the run raises that error again and the session is
  back at the database the run began with; nothing has been enqueued. When the fetch and the
  commit succeed, both writes are stored.
\<close>

theorem check_job_atomic:
  "(stored (final (check_single_key e d q key_id)) = d
      \<or> (\<exists>b. stored (final (check_single_key e d q key_id)) = both_written e key_id b d))
   \<and> working (final (check_single_key e d q key_id))
        = stored (final (check_single_key e d q key_id))
   \<and> (\<forall>k p. first_key (Session d) key_id = Some k
             \<and> first_platform (Session d) (platform_id k) = Some p \<longrightarrow>
         (\<forall>err reqs. fetch_step e k p = (Inl err, reqs) \<longrightarrow>
             raised (check_single_key e d q key_id) = Some err
           \<and> final (check_single_key e d q key_id) = Session d
           \<and> queue (check_single_key e d q key_id) = q
           \<and> submitted (check_single_key e d q key_id) = [])
       \<and> (\<forall>result reqs. fetch_step e k p = (Inr result, reqs) \<and> \<not> commit_ok e \<longrightarrow>
             raised (check_single_key e d q key_id) = Some OperationalError
           \<and> final (check_single_key e d q key_id) = Session d
           \<and> queue (check_single_key e d q key_id) = q
           \<and> submitted (check_single_key e d q key_id) = [])
       \<and> (\<forall>result reqs. fetch_step e k p = (Inr result, reqs) \<and> commit_ok e \<longrightarrow>
             stored (final (check_single_key e d q key_id))
               = both_written e key_id (balance result) d))"
proof -
  let ?r = "check_single_key e d q key_id"
  have b: "first_key (Session d) key_id = Some k \<Longrightarrow>
      first_platform (Session d) (platform_id k) = Some p \<Longrightarrow>
      fetch_step e k p = (Inl err, reqs) \<Longrightarrow>
      raised ?r = Some err \<and> final ?r = Session d \<and> queue ?r = q \<and> submitted ?r = []"
    for k p err reqs
    by (simp add: check_single_key_found)
  have c: "first_key (Session d) key_id = Some k \<Longrightarrow>
      first_platform (Session d) (platform_id k) = Some p \<Longrightarrow>
      fetch_step e k p = (Inr result, reqs) \<Longrightarrow> \<not> commit_ok e \<Longrightarrow>
      raised ?r = Some OperationalError \<and> final ?r = Session d \<and> queue ?r = q
        \<and> submitted ?r = []"
    for k p result reqs
    by (simp add: check_single_key_found)
  have d: "first_key (Session d) key_id = Some k \<Longrightarrow>
      first_platform (Session d) (platform_id k) = Some p \<Longrightarrow>
      fetch_step e k p = (Inr result, reqs) \<Longrightarrow> commit_ok e \<Longrightarrow>
      stored (final ?r) = both_written e key_id (balance result) d"
    for k p result reqs
    by (simp add: check_single_key_found stored_Session split: prod.splits)
  from check_single_key_stored [of e d q key_id] check_single_key_settled [of e d q key_id] b c d
  show ?thesis by blast
qed

theorem check_job_atomic_witness:
  "raised (check_single_key undecryptable demo_db [] 7) = Some InvalidToken
   \<and> final (check_single_key undecryptable demo_db [] 7) = Session demo_db
   \<and> raised (check_single_key (failing_commit (credits 42.5)) demo_db [] 7)
       = Some OperationalError
   \<and> final (check_single_key (failing_commit (credits 42.5)) demo_db [] 7) = Session demo_db
   \<and> stored (final (check_single_key (answering (credits 42.5)) demo_db [] 7))
       = both_written (answering (credits 42.5)) 7 42.5 demo_db"
proof -
  have "raised (check_single_key undecryptable demo_db [] 7) = Some InvalidToken
        \<and> final (check_single_key undecryptable demo_db [] 7) = Session demo_db"
    using check_job_atomic [of undecryptable demo_db "[]" 7] demo_first_key demo_first_platform
      demo_fetch_undecryptable
    by blast
  moreover have "\<not> commit_ok (failing_commit (credits 42.5))"
    by (simp add: failing_commit_def)
  then have "raised (check_single_key (failing_commit (credits 42.5)) demo_db [] 7)
          = Some OperationalError
        \<and> final (check_single_key (failing_commit (credits 42.5)) demo_db [] 7) = Session demo_db"
    using check_job_atomic [of "failing_commit (credits 42.5)" demo_db "[]" 7]
      demo_first_key demo_first_platform demo_fetch_failing_commit [of "42.5"]
    by blast
  moreover have "commit_ok (answering (credits 42.5))"
    by (simp add: answering_simps)
  then have "stored (final (check_single_key (answering (credits 42.5)) demo_db [] 7))
       = both_written (answering (credits 42.5)) 7
           (balance \<lparr>balance = 42.5, is_estimate = False\<rparr>) demo_db"
    using check_job_atomic [of "answering (credits 42.5)" demo_db "[]" 7]
      demo_first_key demo_first_platform demo_fetch_answering [of "42.5"]
    by blast
  ultimately show ?thesis by simp
qed

lemma find_key_updated:
  "find (\<lambda>k. key_ident k = key_id) ks = Some k \<Longrightarrow>
   find (\<lambda>k. key_ident k = key_id)
     (map (\<lambda>k. if key_ident k = key_id
               then k\<lparr>last_known_balance := Some b, last_checked := Some t\<rparr>
               else k) ks)
     = Some (k\<lparr>last_known_balance := Some b, last_checked := Some t\<rparr>)"
  by (induction ks) (auto split: if_splits)

lemma first_key_both_written:
  "first_key (Session d) key_id = Some k \<Longrightarrow>
   first_key (Session (both_written e key_id b d)) key_id
     = Some (k\<lparr>last_known_balance := Some b, last_checked := Some (utcnow e 0)\<rparr>)"
  by (simp add: first_key_def Session_def both_written_def find_key_updated)

text \<open>
  Claim C10. When the fetch and the commit have succeeded, a rule exists, the balance is at
  most its threshold and the enqueue of the notification raises, the run raises that error;
  the rollback of the handler undoes nothing: the stored database holds both writes, the
  credential carries the fetched balance and the checked-timestamp, the history has its new
  row, and the queue is as it was. The enqueue raises in every such run, with the
  \<^verbatim>\<open>AttributeError\<close> of the lookup on the context.
\<close>

theorem notify_failure_keeps_commit:
  assumes "first_key (Session d) key_id = Some k"
    and "first_platform (Session d) (platform_id k) = Some p"
    and "fetch_step e k p = (Inr result, reqs)"
    and "commit_ok e"
    and "first_rule (Session d) key_id = Some r"
    and "balance result \<le> threshold_amount r"
  shows "raised (check_single_key e d q key_id) = Some AttributeError
       \<and> stored (final (check_single_key e d q key_id))
            = both_written e key_id (balance result) d
       \<and> working (final (check_single_key e d q key_id))
            = both_written e key_id (balance result) d
       \<and> first_key (final (check_single_key e d q key_id)) key_id
            = Some (k\<lparr>last_known_balance := Some (balance result),
                      last_checked := Some (utcnow e 0)\<rparr>)
       \<and> balance_logs (stored (final (check_single_key e d q key_id)))
            = balance_logs d @ [\<lparr>log_timestamp = utcnow e 1, log_balance = balance result,
                                  log_key_id = key_id\<rparr>]
       \<and> queue (check_single_key e d q key_id) = q"
  using assms
  by (simp add: check_single_key_found [OF assms(1,2)] notify_step_cases stored_Session
      both_written_fields first_key_both_written)

theorem notify_failure_keeps_commit_witness:
  "raised (check_single_key (answering (credits 42.5)) demo_db [] 7) = Some AttributeError
   \<and> first_key (final (check_single_key (answering (credits 42.5)) demo_db [] 7)) 7
       = Some (demo_key\<lparr>last_known_balance := Some 42.5, last_checked := Some 1000\<rparr>)
   \<and> balance_logs (stored (final (check_single_key (answering (credits 42.5)) demo_db [] 7)))
       = [\<lparr>log_timestamp = 10, log_balance = 90, log_key_id = 7\<rparr>,
          \<lparr>log_timestamp = 1001, log_balance = 42.5, log_key_id = 7\<rparr>]
   \<and> queue (check_single_key (answering (credits 42.5)) demo_db [] 7) = []"
proof -
  let ?e = "answering (credits 42.5)"
  let ?res = "\<lparr>balance = 42.5, is_estimate = False\<rparr>"
  have c: "commit_ok ?e"
    by (simp add: answering_simps)
  have le: "balance ?res \<le> threshold_amount demo_rule"
    by (simp add: demo_rule_def)
  from notify_failure_keeps_commit
         [OF demo_first_key demo_first_platform demo_fetch_answering c demo_first_rule le,
          of "[]"]
  show ?thesis
    by (simp add: answering_simps) (simp add: demo_db_def both_written_def answering_simps)
qed

subsection \<open>The scheduler\<close>

lemma enqueue_checks_prefix:
  "enqueue_checks e q ks =
     (if \<forall>k\<in>set ks. enqueue_ok e (Check_single_key (key_ident k)) then None else Some RedisError,
      q @ takeWhile (enqueue_ok e) (map (\<lambda>k. Check_single_key (key_ident k)) ks))"
  by (induction ks arbitrary: q) (auto simp: enqueue_job_def)

text \<open>
  Claim C3 as stated fails: with three credentials and a queue that refuses the job of the
  second, the job of the third, which the queue would take, is never enqueued; the loop ends
  with the error of the second.
\<close>

theorem scheduler_fanout_counterexample:
  "enqueue_ok refusing_second (Check_single_key 3)
   \<and> schedule_all_key_checks refusing_second three_keys_db []
       = (Some RedisError, [Check_single_key 1])"
  by (simp add: schedule_all_key_checks_def refusing_second_def calm_env_def three_keys_db_def
        Session_def enqueue_job_def)

text \<open>
  Claim C3 as amended. With the pool created, the scheduler enqueues the check jobs in the
  order of enumeration up to the first one the queue refuses, and raises exactly when one is
  refused; the jobs after a refused one are not enqueued. When only the last enqueue fails,
  the jobs of all the other credentials have been enqueued.
\<close>

theorem scheduler_fanout_prefix:
  assumes "pool_ok e"
  shows "schedule_all_key_checks e d q =
           (if \<forall>k\<in>set (api_keys d). enqueue_ok e (Check_single_key (key_ident k))
            then None else Some RedisError,
            q @ takeWhile (enqueue_ok e) (map (\<lambda>k. Check_single_key (key_ident k)) (api_keys d)))
       \<and> (\<forall>ks k. api_keys d = ks @ [k]
             \<and> (\<forall>k'\<in>set ks. enqueue_ok e (Check_single_key (key_ident k')))
             \<and> \<not> enqueue_ok e (Check_single_key (key_ident k)) \<longrightarrow>
            schedule_all_key_checks e d q
              = (Some RedisError, q @ map (\<lambda>k. Check_single_key (key_ident k)) ks))"
proof -
  have main: "schedule_all_key_checks e d q =
           (if \<forall>k\<in>set (api_keys d). enqueue_ok e (Check_single_key (key_ident k))
            then None else Some RedisError,
            q @ takeWhile (enqueue_ok e) (map (\<lambda>k. Check_single_key (key_ident k)) (api_keys d)))"
    using assms
    by (simp add: schedule_all_key_checks_def Session_def enqueue_checks_prefix Let_def)
  have "takeWhile (enqueue_ok e) (map (\<lambda>k. Check_single_key (key_ident k)) (ks @ [k]))
          = map (\<lambda>k. Check_single_key (key_ident k)) ks"
    if "\<forall>k'\<in>set ks. enqueue_ok e (Check_single_key (key_ident k'))"
      and "\<not> enqueue_ok e (Check_single_key (key_ident k))" for ks k
    using that by (induction ks) auto
  with main show ?thesis by auto
qed

theorem scheduler_fanout_prefix_witness:
  "schedule_all_key_checks refusing_second three_keys_db []
       = (Some RedisError, [Check_single_key 1])
   \<and> schedule_all_key_checks calm_env three_keys_db []
       = (None, [Check_single_key 1, Check_single_key 2, Check_single_key 3])"
  using scheduler_fanout_prefix [of refusing_second three_keys_db "[]"]
        scheduler_fanout_prefix [of calm_env three_keys_db "[]"]
  by (simp add: refusing_second_def calm_env_def three_keys_db_def)

subsection \<open>What is stored of a secret\<close>

lemma static_both_written:
  "map static_columns (api_keys (both_written e key_id b d)) = map static_columns (api_keys d)"
  by (simp add: both_written_def static_columns_def)

text \<open>
  Claim C9. Registering a credential stores nothing or one new row, whose secret column is
  the ciphertext \<^verbatim>\<open>encrypt\<close> returned and whose other columns come from the other fields of
  the request; what \<^verbatim>\<open>create_key\<close> returns and stores depends on the plaintext only through
  that ciphertext (two plaintexts with the same ciphertext give the same result). A run of
  the check job leaves every column of every credential row other than the balance and the
  checked-timestamp as it was, the secret column included, and does not touch the platforms
  and the rules.
\<close>

theorem plaintext_never_persisted:
  "(\<forall>err s. create_key e new_id d uid kd = Inr (err, s) \<longrightarrow>
       stored s = d
     \<or> (\<exists>row. stored s = d\<lparr>api_keys := api_keys d @ [row]\<rparr>
            \<and> api_key_encrypted row = encrypt e (api_key kd)
            \<and> key_ident row = new_id \<and> name row = req_name kd
            \<and> metadata row = or_empty (req_metadata kd)
            \<and> last_known_balance row = None \<and> last_checked row = None
            \<and> user_id row = uid \<and> platform_id row = req_platform_id kd))
   \<and> (\<forall>f g pt. f (api_key kd) = g pt \<longrightarrow>
         create_key (e\<lparr>encrypt := f\<rparr>) new_id d uid kd
           = create_key (e\<lparr>encrypt := g\<rparr>) new_id d uid (kd\<lparr>api_key := pt\<rparr>))
   \<and> map static_columns (api_keys (stored (final (check_single_key e d q key_id))))
        = map static_columns (api_keys d)
   \<and> platforms (stored (final (check_single_key e d q key_id))) = platforms d
   \<and> notification_rules (stored (final (check_single_key e d q key_id))) = notification_rules d"
proof -
  let ?r = "check_single_key e d q key_id"
  have a: "stored s = d
     \<or> (\<exists>row. stored s = d\<lparr>api_keys := api_keys d @ [row]\<rparr>
            \<and> api_key_encrypted row = encrypt e (api_key kd)
            \<and> key_ident row = new_id \<and> name row = req_name kd
            \<and> metadata row = or_empty (req_metadata kd)
            \<and> last_known_balance row = None \<and> last_checked row = None
            \<and> user_id row = uid \<and> platform_id row = req_platform_id kd)"
    if "create_key e new_id d uid kd = Inr (err, s)" for err s
    using that
    by (auto simp: create_key_def Let_def commit_def add_key_def Session_def new_key_row_def
          split: option.splits if_splits)
  have b: "create_key (e\<lparr>encrypt := f\<rparr>) new_id d uid kd
           = create_key (e\<lparr>encrypt := g\<rparr>) new_id d uid (kd\<lparr>api_key := pt\<rparr>)"
    if "f (api_key kd) = g pt" for f g pt
    using that
    by (simp add: create_key_def Let_def commit_def new_key_row_def split: option.splits)
  have c: "map static_columns (api_keys (stored (final ?r))) = map static_columns (api_keys d)"
    using check_single_key_stored [of e d q key_id] by (auto simp: static_both_written)
  have d: "platforms (stored (final ?r)) = platforms d"
    using check_single_key_stored [of e d q key_id] by (auto simp: both_written_fields)
  have e: "notification_rules (stored (final ?r)) = notification_rules d"
    using check_single_key_stored [of e d q key_id] by (auto simp: both_written_fields)
  from a b c d e show ?thesis by blast
qed

theorem plaintext_never_persisted_witness:
  "create_key (calm_env\<lparr>encrypt := prefix_cipher\<rparr>) 8 demo_db 1 demo_request
     = create_key (calm_env\<lparr>encrypt := constant_cipher\<rparr>) 8 demo_db 1
         (demo_request\<lparr>api_key := ''other''\<rparr>)
   \<and> map static_columns
        (api_keys (stored (final (check_single_key (answering (credits 42.5)) demo_db [] 7))))
      = map static_columns (api_keys demo_db)"
proof -
  have "prefix_cipher (api_key demo_request) = constant_cipher ''other''"
    by (simp add: prefix_cipher_def constant_cipher_def demo_request_def)
  with plaintext_never_persisted [of calm_env 8 demo_db 1 demo_request "[]" 7]
  have "create_key (calm_env\<lparr>encrypt := prefix_cipher\<rparr>) 8 demo_db 1 demo_request
     = create_key (calm_env\<lparr>encrypt := constant_cipher\<rparr>) 8 demo_db 1
         (demo_request\<lparr>api_key := ''other''\<rparr>)"
    by blast
  with plaintext_never_persisted [of "answering (credits 42.5)" 8 demo_db 1 demo_request "[]" 7]
  show ?thesis by blast
qed

end
